theory Spec2Isabelle
  imports Complex_Main "HOL-Library.Product_Lexorder"
begin

section \<open>Data model\<close>

text \<open>
  Python floats are idealised as \<^typ>\<open>real\<close> (no rounding, no NaN), Python ints as
  \<^typ>\<open>int\<close>.  A Python \<open>dict\<close> is an association list in insertion order; its keys
  are pairwise different, which is the representation invariant \<open>distinct (map fst d)\<close>.
  Iterating \<open>d.items()\<close> walks the list, \<open>d.get(k)\<close> and \<open>d[k]\<close> are \<^const>\<open>map_of\<close>.
\<close>

definition py_float :: "real \<Rightarrow> real" where
  "py_float x = x"

definition py_int :: "int \<Rightarrow> int" where
  "py_int n = n"

text \<open>\<open>d[k] = v\<close>: an existing key keeps its position, a new key goes to the end.\<close>

fun dict_set :: "'k \<Rightarrow> 'v \<Rightarrow> ('k \<times> 'v) list \<Rightarrow> ('k \<times> 'v) list" where
  "dict_set k v [] = [(k, v)]"
| "dict_set k v ((k', v') # d) =
     (if k' = k then (k', v) # d else (k', v') # dict_set k v d)"

text \<open>A dict comprehension, or a loop of assignments into an empty dict.\<close>

definition dict_of_items :: "('k \<times> 'v) list \<Rightarrow> ('k \<times> 'v) list" where
  "dict_of_items its = foldl (\<lambda>d (k, v). dict_set k v d) [] its"

text \<open>class \<open>GradeCategory\<close> (grade\_category.py)\<close>

record grade_category =
  name :: string
  weight :: real
  total_assignments :: int
  drops :: int
  grades :: "real list"

text \<open>class \<open>Course\<close> (course.py); its \<open>name\<close> attribute is \<open>course_name\<close> here.\<close>

record course =
  course_name :: string
  credit_hours :: real
  categories :: "(string \<times> grade_category) list"
  grade_boundaries :: "(real \<times> real) list"
  semester :: string
  final_policy :: string

text \<open>The dictionaries built by \<open>to_dict\<close>: fixed string keys, so records.\<close>

record category_dict =
  d_name :: string
  d_weight :: real
  d_total_assignments :: int
  d_drops :: int
  d_grades :: "real list"

record course_dict =
  cd_name :: string
  cd_credit_hours :: real
  cd_semester :: string
  cd_categories :: "(string \<times> category_dict) list"
  cd_grade_boundaries :: "(real \<times> real) list"
  cd_final_policy :: string

section \<open>Serialisation (\<open>to_dict\<close>, \<open>from_dict\<close>)\<close>

definition category_to_dict :: "grade_category \<Rightarrow> category_dict" where
  "category_to_dict self =
     \<lparr> d_name = name self,
       d_weight = py_float (weight self),
       d_total_assignments = py_int (total_assignments self),
       d_drops = py_int (drops self),
       d_grades = map py_float (grades self) \<rparr>"

text \<open>\<open>GradeCategory.__init__\<close> followed by the assignment of \<open>grades\<close>.\<close>

definition category_from_dict :: "category_dict \<Rightarrow> grade_category" where
  "category_from_dict data =
     (let category =
            \<lparr> name = d_name data,
              weight = py_float (py_float (d_weight data)),
              total_assignments = py_int (py_int (d_total_assignments data)),
              drops = py_int (py_int (d_drops data)),
              grades = [] \<rparr>
      in category\<lparr> grades := map py_float (d_grades data) \<rparr>)"

definition to_dict :: "course \<Rightarrow> course_dict" where
  "to_dict self =
     \<lparr> cd_name = course_name self,
       cd_credit_hours = py_float (credit_hours self),
       cd_semester = semester self,
       cd_categories =
         dict_of_items (map (\<lambda>(nm, cat). (nm, category_to_dict cat)) (categories self)),
       cd_grade_boundaries =
         dict_of_items (map (\<lambda>(k, v). (py_float k, py_float v)) (grade_boundaries self)),
       cd_final_policy = final_policy self \<rparr>"

text \<open>
  \<open>Course.__init__\<close> gives empty categories and boundaries, an empty semester and the
  policy \<open>"No Replacement"\<close>; \<open>from_dict\<close> then overwrites the fields and stores the
  categories one by one.
\<close>

definition course_init :: "string \<Rightarrow> real \<Rightarrow> course" where
  "course_init nm hours =
     \<lparr> course_name = nm, credit_hours = py_float hours, categories = [],
       grade_boundaries = [], semester = [], final_policy = ''No Replacement'' \<rparr>"

definition from_dict :: "course_dict \<Rightarrow> course" where
  "from_dict data =
     (let c0 = course_init (cd_name data) (py_float (cd_credit_hours data));
          c1 = c0\<lparr> semester := cd_semester data \<rparr>;
          c2 = c1\<lparr> grade_boundaries :=
                 dict_of_items (map (\<lambda>(k, v). (py_float k, py_float v))
                                    (cd_grade_boundaries data)) \<rparr>;
          c3 = c2\<lparr> final_policy := cd_final_policy data \<rparr>
      in foldl (\<lambda>c (nm, cat_data).
                  c\<lparr> categories := dict_set nm (category_from_dict cat_data) (categories c) \<rparr>)
               c3 (cd_categories data))"

section \<open>Aggregation (course.py)\<close>

text \<open>\<open>sum(grades) / len(grades) if grades else 0.0\<close>\<close>

definition mean_or_zero :: "real list \<Rightarrow> real" where
  "mean_or_zero gs = (if gs \<noteq> [] then sum_list gs / real (length gs) else 0)"

text \<open>\<open>if category.drops > 0: grades = grades[category.drops:]\<close>\<close>

definition apply_drops :: "int \<Rightarrow> real list \<Rightarrow> real list" where
  "apply_drops d gs = (if d > 0 then drop (nat d) gs else gs)"

text \<open>
  The final-exam block of \<open>calculate_category_average\<close> (lines 54 to 65): \<open>gs\<close> is the
  local list after the drops, \<open>grades[0] = v\<close> is the list update at index 0.
\<close>

definition final_substitution :: "course \<Rightarrow> string \<Rightarrow> real list \<Rightarrow> real list" where
  "final_substitution self category_name gs =
     (case map_of (categories self) ''Final'' of
        None \<Rightarrow> gs
      | Some fin \<Rightarrow>
          if category_name = ''Test'' \<and> final_policy self \<noteq> ''No Replacement'' then
            (case map py_float (grades fin) of
               [] \<Rightarrow> gs
             | final_grade # _ \<Rightarrow>
                 if final_policy self = ''Replace Lowest Test'' then
                   (if gs \<noteq> [] \<and> final_grade > hd gs then gs[0 := final_grade] else gs)
                 else if final_policy self = ''Average with Lowest Test'' then
                   (if gs \<noteq> [] then gs[0 := (hd gs + final_grade) / 2] else gs)
                 else gs)
          else gs)"

definition calculate_category_average :: "course \<Rightarrow> string \<Rightarrow> real" where
  "calculate_category_average self category_name =
     (case map_of (categories self) category_name of
        None \<Rightarrow> 0
      | Some category \<Rightarrow>
          if grades category = [] then 0
          else mean_or_zero
                 (final_substitution self category_name
                    (apply_drops (drops category) (map py_float (sort (grades category))))))"

text \<open>The loop of \<open>calculate_current_grade\<close>, with its two running totals.\<close>

fun current_grade_loop ::
  "course \<Rightarrow> (string \<times> grade_category) list \<Rightarrow> real \<times> real \<Rightarrow> real \<times> real" where
  "current_grade_loop self [] acc = acc"
| "current_grade_loop self ((nm, category) # rest) (total_weighted_score, total_weight_used) =
     (if grades category \<noteq> [] then
        (let average = py_float (calculate_category_average self nm);
             w = py_float (weight category) / 100
         in current_grade_loop self rest
              (total_weighted_score + average * w, total_weight_used + w))
      else current_grade_loop self rest (total_weighted_score, total_weight_used))"

definition calculate_current_grade :: "course \<Rightarrow> real" where
  "calculate_current_grade self =
     (case current_grade_loop self (categories self) (0, 0) of
        (total_weighted_score, total_weight_used) \<Rightarrow>
          if total_weight_used > 0 then total_weighted_score / total_weight_used else 0)"

text \<open>
  \<open>sorted(pairs, reverse=True)\<close>: Python compares tuples lexicographically, which is the
  order of \<^typ>\<open>real \<times> real\<close> here.
\<close>

definition sorted_reverse :: "(real \<times> real) list \<Rightarrow> (real \<times> real) list" where
  "sorted_reverse ps = rev (sort ps)"

fun gpa_scan :: "real \<Rightarrow> (real \<times> real) list \<Rightarrow> real" where
  "gpa_scan percentage [] = 0"
| "gpa_scan percentage ((gpa, minimum) # rest) =
     (if percentage \<ge> minimum then py_float gpa else gpa_scan percentage rest)"

definition get_gpa_points :: "course \<Rightarrow> real \<Rightarrow> real" where
  "get_gpa_points self percentage =
     (if grade_boundaries self = [] then 0
      else gpa_scan (py_float percentage)
             (sorted_reverse (map (\<lambda>(k, v). (py_float k, py_float v)) (grade_boundaries self))))"

section \<open>Required grades (main.py)\<close>

text \<open>
  The entries of the policy combo box (\<open>setup_final_policy_section\<close>, lines 510 to 514);
  \<open>final_policy_combo.currentText()\<close> is one of them.
\<close>

definition final_policy_items :: "string list" where
  "final_policy_items =
     [''No Replacement'',
      ''Replace Lowest Test (Experimental, use at own risk)'',
      ''Average with Lowest Test (Experimental, use at own risk)'']"

datatype error = ZeroDivisionError | ValueError string

definition unreachable_final :: error where
  "unreachable_final = ValueError ''Cannot achieve the target grade with the remaining Final''"

text \<open>
  \<open>calculate_required_grades\<close> (lines 943 to 946) builds three dicts with the keys of
  \<open>categories\<close>: \<open>current_grades[name]\<close> is a copy of the grades,
  \<open>weights[name] = category.weight / 100\<close>, \<open>total_assignments[name]\<close> the capacity.
  The model reads them off the category.
\<close>

definition solver_weight :: "grade_category \<Rightarrow> real" where
  "solver_weight category = weight category / 100"

text \<open>Lines 1023 to 1031: the processed grades of one category.\<close>

definition process_drops :: "grade_category \<Rightarrow> real list" where
  "process_drops category =
     (if grades category \<noteq> [] then
        (let sorted_grades = sort (grades category) in
         if drops category > 0 \<and> int (length sorted_grades) > drops category
         then drop (nat (drops category)) sorted_grades
         else sorted_grades)
      else [])"

definition effective_total :: "grade_category \<Rightarrow> int" where
  "effective_total category = total_assignments category - drops category"

text \<open>
  Lines 1037 to 1043; \<open>len(...) / effective_total\<close> divides two ints and raises
  \<open>ZeroDivisionError\<close> when the divisor is 0.
\<close>

fun contribution_loop ::
  "(string \<times> grade_category) list \<Rightarrow> real \<times> real \<Rightarrow> error + (real \<times> real)" where
  "contribution_loop [] acc = Inr acc"
| "contribution_loop ((nm, category) # rest) (current_contribution, total_weight_used) =
     (if process_drops category \<noteq> [] then
        (let avg = sum_list (process_drops category) / real (length (process_drops category))
         in if effective_total category = 0 then Inl ZeroDivisionError
            else
              (let completed_weight =
                     solver_weight category
                       * (real (length (process_drops category))
                            / real_of_int (effective_total category))
               in contribution_loop rest
                    (current_contribution + avg * completed_weight,
                     total_weight_used + completed_weight)))
      else contribution_loop rest (current_contribution, total_weight_used))"

text \<open>Lines 1034 to 1046.\<close>

definition current_contribution :: "(string \<times> grade_category) list \<Rightarrow> error + real" where
  "current_contribution cats =
     (case contribution_loop cats (0, 0) of
        Inl e \<Rightarrow> Inl e
      | Inr (cc, total_weight_used) \<Rightarrow>
          Inr (if total_weight_used > 0 then (cc / total_weight_used) * total_weight_used
               else cc))"

text \<open>
  \<open>current_contribution\<close> starts as the int 0 and becomes a NumPy scalar with the first
  \<open>+=\<close> of \<open>avg * completed_weight\<close> (\<open>np.mean\<close> returns one).
\<close>

definition contribution_is_numpy :: "(string \<times> grade_category) list \<Rightarrow> bool" where
  "contribution_is_numpy cats = list_ex (\<lambda>(nm, category). process_drops category \<noteq> []) cats"

text \<open>
  One round of the loop of lines 1051 to 1082: the slots a category appends to
  \<open>all_remaining_grades\<close>.  \<open>policy\<close> is the combo box text, \<open>cats\<close> the whole dict
  (for \<open>weights["Test"]\<close> and \<open>total_assignments["Test"]\<close>).  When \<open>remaining > 0\<close> the
  effective total is positive, so only the division by \<open>total_assignments["Test"]\<close>
  can raise.
\<close>

definition category_slots ::
  "(string \<times> grade_category) list \<Rightarrow> bool \<Rightarrow> string \<Rightarrow> string \<Rightarrow> grade_category
     \<Rightarrow> error + (string \<times> real) list" where
  "category_slots cats apply_final_policy policy nm category =
     (let current_count = int (length (process_drops category));
          remaining = max 0 (effective_total category - current_count)
      in if remaining > 0 then
           (if nm = ''Test'' \<and> apply_final_policy then
              (let weight_per = solver_weight category / real_of_int (effective_total category)
               in Inr (replicate (nat (remaining - 1)) (nm, weight_per)))
            else if nm = ''Final'' \<and> apply_final_policy then
              (let final_weight = solver_weight category / real_of_int (effective_total category)
               in if policy = ''Replace Lowest Test'' then
                    (case map_of cats ''Test'' of
                       Some test \<Rightarrow>
                         if total_assignments test = 0 then Inl ZeroDivisionError
                         else
                           (let test_weight =
                                  solver_weight test / real_of_int (total_assignments test)
                            in Inr [(''Final'', final_weight + test_weight)])
                     | None \<Rightarrow> Inr [(''Final'', final_weight)])
                  else if policy = ''Average with Lowest Test'' then
                    (case map_of cats ''Test'' of
                       Some test \<Rightarrow>
                         if total_assignments test = 0 then Inl ZeroDivisionError
                         else
                           (let test_weight =
                                  solver_weight test / real_of_int (total_assignments test)
                            in Inr [(''Final'', final_weight), (''Test'', test_weight / 2)])
                     | None \<Rightarrow> Inr [(''Final'', final_weight)])
                  else Inr [(''Final'', final_weight)])
            else
              (let weight_per = solver_weight category / real_of_int (effective_total category)
               in Inr (replicate (nat remaining) (nm, weight_per))))
         else Inr [])"

fun remaining_loop ::
  "(string \<times> grade_category) list \<Rightarrow> bool \<Rightarrow> string \<Rightarrow> (string \<times> grade_category) list
     \<Rightarrow> (string \<times> real) list \<Rightarrow> error + (string \<times> real) list" where
  "remaining_loop cats apply_final_policy policy [] all_remaining_grades =
     Inr all_remaining_grades"
| "remaining_loop cats apply_final_policy policy ((nm, category) # rest) all_remaining_grades =
     (case category_slots cats apply_final_policy policy nm category of
        Inl e \<Rightarrow> Inl e
      | Inr slots \<Rightarrow>
          remaining_loop cats apply_final_policy policy rest (all_remaining_grades @ slots))"

definition remaining_slots ::
  "(string \<times> grade_category) list \<Rightarrow> bool \<Rightarrow> string \<Rightarrow> error + (string \<times> real) list" where
  "remaining_slots cats apply_final_policy policy =
     remaining_loop cats apply_final_policy policy cats []"

text \<open>
  What \<open>find_minimum_balanced_grades\<close> does with the slots: \<open>NoRemaining\<close> is the empty
  dict of line 1085, \<open>FinalOnly g\<close> the dict \<open>{"Final": [g]}\<close> of line 1092, and
  \<open>Optimise slots needed\<close> is the call of SciPy's \<open>minimize\<close> (line 1164) on the slots
  with the equality constraint \<open>\<Sum> grade * weight = needed\<close>; the optimiser itself is
  a library and is not modelled.
\<close>

datatype solver_result =
  NoRemaining
| FinalOnly real
| Optimise "(string \<times> real) list" real

text \<open>
  Lines 1088 to 1094.  With a zero \<open>final_weight\<close> the quotient of two Python floats
  raises \<open>ZeroDivisionError\<close>; when \<open>current_contribution\<close> is a NumPy scalar the
  quotient is infinite or NaN instead, which fails the range test.
\<close>

definition final_shortcut :: "bool \<Rightarrow> real \<Rightarrow> real \<Rightarrow> real \<Rightarrow> error + solver_result" where
  "final_shortcut is_numpy target_grade cc final_weight =
     (if final_weight = 0 then
        (if is_numpy then Inl unreachable_final else Inl ZeroDivisionError)
      else
        (let needed_grade = (target_grade - cc) / final_weight
         in if 0 \<le> needed_grade \<and> needed_grade \<le> 100 then Inr (FinalOnly needed_grade)
            else Inl unreachable_final))"

definition find_minimum_balanced_grades ::
  "course \<Rightarrow> string \<Rightarrow> real \<Rightarrow> bool \<Rightarrow> error + solver_result" where
  "find_minimum_balanced_grades current_course policy target_grade apply_final_policy =
     (case current_contribution (categories current_course) of
        Inl e \<Rightarrow> Inl e
      | Inr cc \<Rightarrow>
          (case remaining_slots (categories current_course) apply_final_policy policy of
             Inl e \<Rightarrow> Inl e
           | Inr all_remaining_grades \<Rightarrow>
               if all_remaining_grades = [] then Inr NoRemaining
               else if length all_remaining_grades = 1
                       \<and> fst (all_remaining_grades ! 0) = ''Final'' then
                 final_shortcut (contribution_is_numpy (categories current_course))
                   target_grade cc (snd (all_remaining_grades ! 0))
               else Inr (Optimise all_remaining_grades (target_grade - cc))))"

text \<open>
  The choice of \<open>apply_final_policy\<close> in \<open>calculate_required_grades\<close> (lines 951 to 997):
  the policy text differs from \<open>"No Replacement"\<close> and \<open>Test\<close> has a recorded grade.
\<close>

definition required_grades_for_boundary :: "course \<Rightarrow> string \<Rightarrow> real \<Rightarrow> error + solver_result" where
  "required_grades_for_boundary current_course policy boundary =
     (let has_lowest_test =
            (case map_of (categories current_course) ''Test'' of
               None \<Rightarrow> False
             | Some test \<Rightarrow> grades test \<noteq> [])
      in if policy \<noteq> ''No Replacement'' \<and> has_lowest_test
         then find_minimum_balanced_grades current_course policy (py_float boundary) True
         else find_minimum_balanced_grades current_course policy (py_float boundary) False)"

text \<open>
  The check of \<open>save_boundaries\<close> (lines 1213 to 1218) that the thresholds descend
  strictly as the GPA descends, starting from \<open>prev_value = 101\<close>.
\<close>

fun descending_from :: "real \<Rightarrow> (real \<times> real) list \<Rightarrow> bool" where
  "descending_from prev_value [] = True"
| "descending_from prev_value ((gpa, v) # rest) =
     (if v \<ge> prev_value then False else descending_from v rest)"

definition boundaries_descending :: "(real \<times> real) list \<Rightarrow> bool" where
  "boundaries_descending bs = descending_from 101 (sorted_reverse bs)"

section \<open>The queries on a store of list objects\<close>

text \<open>
  Python lists are objects: \<open>category.grades\<close> is a reference, and \<open>sorted(...)\<close>, a list
  comprehension and a slice each build a new list, while \<open>grades[0] = v\<close> writes into
  the list the local name refers to.  Here a reference is an index into the store of
  all list objects, a new list is appended to the store, and each query returns the
  state it leaves behind.
\<close>

type_synonym addr = nat
type_synonym list_store = "real list list"

record category_obj =
  o_name :: string
  o_weight :: real
  o_total_assignments :: int
  o_drops :: int
  o_grades :: addr

record course_obj =
  o_course_name :: string
  o_credit_hours :: real
  o_categories :: "(string \<times> category_obj) list"
  o_grade_boundaries :: "(real \<times> real) list"
  o_semester :: string
  o_final_policy :: string

type_synonym py_state = "course_obj \<times> list_store"

text \<open>Building a list gives it the next free reference.\<close>

definition new_list :: "real list \<Rightarrow> list_store \<Rightarrow> addr \<times> list_store" where
  "new_list xs s = (length s, s @ [xs])"

text \<open>\<open>xs[i] = v\<close> on the list object that \<open>a\<close> refers to.\<close>

definition list_setitem :: "addr \<Rightarrow> nat \<Rightarrow> real \<Rightarrow> list_store \<Rightarrow> list_store" where
  "list_setitem a i v s = s[a := (s ! a)[i := v]]"

text \<open>
  Lines 54 to 65 of \<open>calculate_category_average\<close>; \<open>g\<close> is the reference held by the
  local name \<open>grades\<close>, and the comprehension over the final grades builds a list.
\<close>

definition final_substitution_st :: "course_obj \<Rightarrow> string \<Rightarrow> addr \<Rightarrow> list_store \<Rightarrow> list_store" where
  "final_substitution_st self category_name g s =
     (case map_of (o_categories self) ''Final'' of
        None \<Rightarrow> s
      | Some fin \<Rightarrow>
          if category_name = ''Test'' \<and> o_final_policy self \<noteq> ''No Replacement'' then
            (case new_list (map py_float (s ! o_grades fin)) s of
               (final_grades, s1) \<Rightarrow>
                 (case s1 ! final_grades of
                    [] \<Rightarrow> s1
                  | final_grade # _ \<Rightarrow>
                      if o_final_policy self = ''Replace Lowest Test'' then
                        (if s1 ! g \<noteq> [] \<and> final_grade > hd (s1 ! g)
                         then list_setitem g 0 final_grade s1 else s1)
                      else if o_final_policy self = ''Average with Lowest Test'' then
                        (if s1 ! g \<noteq> []
                         then list_setitem g 0 ((hd (s1 ! g) + final_grade) / 2) s1 else s1)
                      else s1))
          else s)"

text \<open>
  \<open>sorted(category.grades)\<close> builds one list, the comprehension around it a second, the
  slice \<open>grades[category.drops:]\<close> a third.
\<close>

definition calculate_category_average_st :: "py_state \<Rightarrow> string \<Rightarrow> real \<times> py_state" where
  "calculate_category_average_st st category_name =
     (case st of (self, s) \<Rightarrow>
        (case map_of (o_categories self) category_name of
           None \<Rightarrow> (0, st)
         | Some category \<Rightarrow>
             if s ! o_grades category = [] then (0, st)
             else
               (case new_list (sort (s ! o_grades category)) s of
                  (a0, s0) \<Rightarrow>
                    (case new_list (map py_float (s0 ! a0)) s0 of
                       (a1, s1) \<Rightarrow>
                         (case (if o_drops category > 0
                                then new_list (drop (nat (o_drops category)) (s1 ! a1)) s1
                                else (a1, s1)) of
                            (g, s2) \<Rightarrow>
                              (let s3 = final_substitution_st self category_name g s2
                               in (mean_or_zero (s3 ! g), (self, s3))))))))"

fun current_grade_loop_st ::
  "(string \<times> category_obj) list \<Rightarrow> real \<times> real \<Rightarrow> py_state \<Rightarrow> (real \<times> real) \<times> py_state" where
  "current_grade_loop_st [] acc st = (acc, st)"
| "current_grade_loop_st ((nm, category) # rest) (total_weighted_score, total_weight_used) st =
     (if snd st ! o_grades category \<noteq> [] then
        (case calculate_category_average_st st nm of
           (average, st') \<Rightarrow>
             (let w = py_float (o_weight category) / 100
              in current_grade_loop_st rest
                   (total_weighted_score + py_float average * w, total_weight_used + w) st'))
      else current_grade_loop_st rest (total_weighted_score, total_weight_used) st)"

definition calculate_current_grade_st :: "py_state \<Rightarrow> real \<times> py_state" where
  "calculate_current_grade_st st =
     (case current_grade_loop_st (o_categories (fst st)) (0, 0) st of
        ((total_weighted_score, total_weight_used), st') \<Rightarrow>
          (if total_weight_used > 0 then total_weighted_score / total_weight_used else 0, st'))"

definition get_gpa_points_st :: "py_state \<Rightarrow> real \<Rightarrow> real \<times> py_state" where
  "get_gpa_points_st st percentage =
     (if o_grade_boundaries (fst st) = [] then (0, st)
      else (gpa_scan (py_float percentage)
              (sorted_reverse (map (\<lambda>(k, v). (py_float k, py_float v))
                                   (o_grade_boundaries (fst st)))), st))"

text \<open>The course a state stands for: every reference replaced by its list.\<close>

definition category_of :: "list_store \<Rightarrow> category_obj \<Rightarrow> grade_category" where
  "category_of s c =
     \<lparr> name = o_name c, weight = o_weight c, total_assignments = o_total_assignments c,
       drops = o_drops c, grades = s ! o_grades c \<rparr>"

definition course_of :: "py_state \<Rightarrow> course" where
  "course_of st =
     \<lparr> course_name = o_course_name (fst st), credit_hours = o_credit_hours (fst st),
       categories = map (\<lambda>(nm, c). (nm, category_of (snd st) c)) (o_categories (fst st)),
       grade_boundaries = o_grade_boundaries (fst st), semester = o_semester (fst st),
       final_policy = o_final_policy (fst st) \<rparr>"

text \<open>Every grades reference points into the store.\<close>

definition valid_refs :: "py_state \<Rightarrow> bool" where
  "valid_refs st = list_all (\<lambda>(nm, c). o_grades c < length (snd st)) (o_categories (fst st))"

text \<open>
  \<open>unchanged st st'\<close>: the course object is the same and every list of \<open>st\<close> is still
  there, at its reference, with the same elements in the same order.
\<close>

definition unchanged :: "py_state \<Rightarrow> py_state \<Rightarrow> bool" where
  "unchanged st st' \<longleftrightarrow> fst st' = fst st \<and> take (length (snd st)) (snd st') = snd st"

text \<open>\<open>extends s s'\<close>: the store \<open>s'\<close> is \<open>s\<close> followed by newly built lists.\<close>

definition extends :: "list_store \<Rightarrow> list_store \<Rightarrow> bool" where
  "extends s s' \<longleftrightarrow> length s \<le> length s' \<and> take (length s) s' = s"

section \<open>Notions used in the statements\<close>

text \<open>The categories with at least one recorded grade.\<close>

definition recorded :: "(string \<times> grade_category) list \<Rightarrow> (string \<times> grade_category) list" where
  "recorded cs = filter (\<lambda>(nm, cat). grades cat \<noteq> []) cs"

text \<open>The completed weight that line 1041 computes for a category.\<close>

definition completed_weight :: "grade_category \<Rightarrow> real" where
  "completed_weight cat =
     weight cat / 100 * (real (length (process_drops cat)) / real_of_int (effective_total cat))"

text \<open>
  The per-slot weight in the words of the specification: the weight of the category
  (as a fraction) divided by its effective total.
\<close>

definition spec_per_slot_weight :: "grade_category \<Rightarrow> real" where
  "spec_per_slot_weight cat = weight cat / 100 / real_of_int (total_assignments cat - drops cat)"

section \<open>Concrete inputs\<close>

definition homework :: grade_category where
  "homework = \<lparr> name = ''Homework'', weight = 40, total_assignments = 4, drops = 1,
                grades = [60, 100, 80, 90] \<rparr>"

definition quiz :: grade_category where
  "quiz = \<lparr> name = ''Quiz'', weight = 60, total_assignments = 2, drops = 0, grades = [85] \<rparr>"

definition homework_quiz_course :: course where
  "homework_quiz_course =
     \<lparr> course_name = ''Algebra'', credit_hours = 3,
       categories = [(''Homework'', homework), (''Quiz'', quiz)],
       grade_boundaries = [(3, 80), (4, 90), (2, 70)],
       semester = ''Fall'', final_policy = ''No Replacement'' \<rparr>"

definition no_grades_course :: course where
  "no_grades_course =
     \<lparr> course_name = ''Algebra'', credit_hours = 3,
       categories = [(''Homework'', homework\<lparr> grades := [] \<rparr>), (''Quiz'', quiz\<lparr> grades := [] \<rparr>)],
       grade_boundaries = [], semester = ''Fall'', final_policy = ''No Replacement'' \<rparr>"

definition single_quiz :: grade_category where
  "single_quiz = \<lparr> name = ''Quiz'', weight = 100, total_assignments = 2, drops = 0,
                   grades = [85] \<rparr>"

definition single_quiz_course :: course where
  "single_quiz_course =
     \<lparr> course_name = ''Algebra'', credit_hours = 3, categories = [(''Quiz'', single_quiz)],
       grade_boundaries = [(4, 90)], semester = [], final_policy = ''No Replacement'' \<rparr>"

definition test_cat :: grade_category where
  "test_cat = \<lparr> name = ''Test'', weight = 40, total_assignments = 3, drops = 0,
                grades = [90, 70] \<rparr>"

definition final_cat :: grade_category where
  "final_cat = \<lparr> name = ''Final'', weight = 60, total_assignments = 1, drops = 0,
                 grades = [80] \<rparr>"

definition test_final_course :: "string \<Rightarrow> course" where
  "test_final_course policy =
     \<lparr> course_name = ''Algebra'', credit_hours = 3,
       categories = [(''Test'', test_cat), (''Final'', final_cat)],
       grade_boundaries = [(4, 90)], semester = [], final_policy = policy \<rparr>"

definition dropping_test :: grade_category where
  "dropping_test = \<lparr> name = ''Test'', weight = 40, total_assignments = 4, drops = 1,
                     grades = [70, 80] \<rparr>"

definition pending_final :: grade_category where
  "pending_final = \<lparr> name = ''Final'', weight = 60, total_assignments = 1, drops = 0,
                     grades = [] \<rparr>"

definition pending_final_course :: course where
  "pending_final_course =
     \<lparr> course_name = ''Algebra'', credit_hours = 3,
       categories = [(''Test'', dropping_test), (''Final'', pending_final)],
       grade_boundaries = [(4, 90)], semester = [],
       final_policy = ''Replace Lowest Test (Experimental, use at own risk)'' \<rparr>"

definition done_quiz :: grade_category where
  "done_quiz = \<lparr> name = ''Quiz'', weight = 50, total_assignments = 1, drops = 0,
                 grades = [85] \<rparr>"

definition quiz_final_course :: course where
  "quiz_final_course =
     \<lparr> course_name = ''Algebra'', credit_hours = 3,
       categories = [(''Quiz'', done_quiz), (''Final'', pending_final\<lparr> weight := 50 \<rparr>)],
       grade_boundaries = [(4, 90)], semester = [], final_policy = ''No Replacement'' \<rparr>"

definition short_quiz :: grade_category where
  "short_quiz = \<lparr> name = ''Quiz'', weight = 60, total_assignments = 3, drops = 1,
                  grades = [85] \<rparr>"

definition short_quiz_course :: course where
  "short_quiz_course =
     \<lparr> course_name = ''Algebra'', credit_hours = 3,
       categories = [(''Homework'', homework), (''Quiz'', short_quiz)],
       grade_boundaries = [(4, 90)], semester = [], final_policy = ''No Replacement'' \<rparr>"

definition weightless_final_quiz_course :: course where
  "weightless_final_quiz_course =
     \<lparr> course_name = ''Algebra'', credit_hours = 3,
       categories = [(''Quiz'', done_quiz), (''Final'', pending_final\<lparr> weight := 0 \<rparr>)],
       grade_boundaries = [(4, 90)], semester = [], final_policy = ''No Replacement'' \<rparr>"

definition weightless_final_course :: course where
  "weightless_final_course =
     \<lparr> course_name = ''Algebra'', credit_hours = 3,
       categories = [(''Final'', pending_final\<lparr> weight := 0 \<rparr>)],
       grade_boundaries = [(4, 90)], semester = [], final_policy = ''No Replacement'' \<rparr>"

definition dropped_quiz :: grade_category where
  "dropped_quiz = \<lparr> name = ''Quiz'', weight = 100, total_assignments = 4, drops = 1,
                    grades = [60, 80, 90] \<rparr>"

definition dropped_quiz_course :: course where
  "dropped_quiz_course =
     \<lparr> course_name = ''Algebra'', credit_hours = 3, categories = [(''Quiz'', dropped_quiz)],
       grade_boundaries = [(4, 90)], semester = [], final_policy = ''No Replacement'' \<rparr>"

definition complete_course :: course where
  "complete_course =
     \<lparr> course_name = ''Algebra'', credit_hours = 3,
       categories = [(''Quiz'', single_quiz\<lparr> grades := [85, 95] \<rparr>)],
       grade_boundaries = [(4, 90)], semester = [], final_policy = ''No Replacement'' \<rparr>"

definition negative_gpa_course :: course where
  "negative_gpa_course =
     \<lparr> course_name = ''Algebra'', credit_hours = 3, categories = [],
       grade_boundaries = [(- 1, 50)], semester = [], final_policy = ''No Replacement'' \<rparr>"

definition test_final_state :: py_state where
  "test_final_state =
     (\<lparr> o_course_name = ''Algebra'', o_credit_hours = 3,
        o_categories =
          [(''Test'', \<lparr> o_name = ''Test'', o_weight = 40, o_total_assignments = 3,
                        o_drops = 0, o_grades = 0 \<rparr>),
           (''Final'', \<lparr> o_name = ''Final'', o_weight = 60, o_total_assignments = 1,
                         o_drops = 0, o_grades = 1 \<rparr>)],
        o_grade_boundaries = [(3, 80), (4, 90)], o_semester = [],
        o_final_policy = ''Replace Lowest Test'' \<rparr>,
      [[90, 70], [80]])"

section \<open>Auxiliary facts\<close>

lemma py_float_id: "py_float = id"
  by (rule ext) (simp add: py_float_def)

lemma map_py_float: "map py_float xs = xs"
  by (simp add: py_float_id)

lemma sum_list_insort: "sum_list (insort x xs) = x + sum_list (xs :: real list)"
  by (induction xs) auto

lemma sum_list_sort: "sum_list (sort xs) = sum_list (xs :: real list)"
  by (induction xs) (auto simp: sum_list_insort)

lemma sort_eq_Nil: "sort xs = [] \<longleftrightarrow> xs = ([] :: real list)"
  using length_sort[of "\<lambda>x. x" xs] by (metis length_0_conv)

lemma apply_drops_eq: "apply_drops d gs = drop (nat d) gs"
  by (simp add: apply_drops_def)

lemma hd_sorted_Min: "sorted xs \<Longrightarrow> xs \<noteq> [] \<Longrightarrow> hd xs = Min (set (xs :: real list))"
  by (cases xs) (auto intro!: Min_eqI[symmetric])

lemma update_first: "gs \<noteq> [] \<Longrightarrow> gs[0 := v] = v # tl gs"
  by (cases gs) auto

lemma sum_list_cong_set:
  "(\<And>x. x \<in> set xs \<Longrightarrow> f x = g x) \<Longrightarrow> (\<Sum>x \<leftarrow> xs. f x) = (\<Sum>x \<leftarrow> xs. (g x :: real))"
  by (induction xs) auto

section \<open>Category average\<close>

text \<open>
  Claim C3.  For a category with at least one recorded grade to which no final-exam
  substitution applies, \<open>calculate_category_average\<close> is the arithmetic mean of the
  grades left after sorting ascending and removing the lowest \<open>drops\<close> entries, and 0
  when none is left; with \<open>drops = 0\<close> it is the mean of all recorded grades.
\<close>

theorem category_average_without_final:
  assumes "map_of (categories self) nm = Some cat"
    and "grades cat \<noteq> []"
    and "\<not> (nm = ''Test'' \<and> final_policy self \<noteq> ''No Replacement''
             \<and> (\<exists>fin. map_of (categories self) ''Final'' = Some fin \<and> grades fin \<noteq> []))"
  shows "calculate_category_average self nm =
           (if drop (nat (drops cat)) (sort (grades cat)) = [] then 0
            else sum_list (drop (nat (drops cat)) (sort (grades cat)))
                   / real (length (drop (nat (drops cat)) (sort (grades cat)))))
         \<and> (drops cat = 0 \<longrightarrow>
              calculate_category_average self nm
                = sum_list (grades cat) / real (length (grades cat)))"
proof -
  let ?eff = "drop (nat (drops cat)) (sort (grades cat))"
  have sub: "final_substitution self nm
               (apply_drops (drops cat) (map py_float (sort (grades cat)))) = ?eff"
    using assms(3)
    by (auto simp: final_substitution_def apply_drops_eq map_py_float
          split: option.splits list.splits)
  have avg: "calculate_category_average self nm = mean_or_zero ?eff"
    using assms(1,2) sub by (simp add: calculate_category_average_def)
  have ne: "sort (grades cat) \<noteq> []"
    using assms(2) by (simp add: sort_eq_Nil)
  show ?thesis
    using assms(2) ne by (auto simp: avg mean_or_zero_def sum_list_sort)
qed

theorem category_average_without_final_witness:
  "calculate_category_average homework_quiz_course ''Homework'' = 90
   \<and> calculate_category_average homework_quiz_course ''Quiz'' = 85"
proof -
  have h1: "map_of (categories homework_quiz_course) ''Homework'' = Some homework"
    and q1: "map_of (categories homework_quiz_course) ''Quiz'' = Some quiz"
    by (simp_all add: homework_quiz_course_def)
  have h2: "grades homework \<noteq> []" and q2: "grades quiz \<noteq> []"
    by (simp_all add: homework_def quiz_def)
  have h3: "\<not> (''Homework'' = ''Test''
               \<and> final_policy homework_quiz_course \<noteq> ''No Replacement''
               \<and> (\<exists>fin. map_of (categories homework_quiz_course) ''Final'' = Some fin
                      \<and> grades fin \<noteq> []))"
    and q3: "\<not> (''Quiz'' = ''Test''
               \<and> final_policy homework_quiz_course \<noteq> ''No Replacement''
               \<and> (\<exists>fin. map_of (categories homework_quiz_course) ''Final'' = Some fin
                      \<and> grades fin \<noteq> []))"
    by simp_all
  from category_average_without_final[OF h1 h2 h3] category_average_without_final[OF q1 q2 q3]
  show ?thesis by (simp add: homework_def quiz_def)
qed

text \<open>
  The course stores as its policy the text of the combo box (\<open>update_final_policy\<close>),
  and with any of the three texts the final-exam block changes nothing.
\<close>

lemma no_substitution_for_combo_text:
  "final_policy self \<in> set final_policy_items \<Longrightarrow> final_substitution self nm gs = gs"
  by (auto simp: final_substitution_def final_policy_items_def split: option.splits list.splits)

text \<open>
  Claim C4.  When the category \<open>Test\<close> is queried, a category \<open>Final\<close> has a recorded
  grade and the policy is not \<open>No Replacement\<close>, only the first recorded final grade
  is used.  With \<open>eff\<close> the test grades after the drops (sorted, so its head is the
  lowest): under \<open>Replace Lowest Test\<close> the head is replaced by the final grade exactly
  when the final grade is strictly greater; under \<open>Average with Lowest Test\<close> the head
  is replaced by the mean of itself and the final grade; then the mean is taken.
\<close>

theorem category_average_with_final:
  assumes "map_of (categories self) ''Test'' = Some test"
    and "map_of (categories self) ''Final'' = Some fin"
    and "grades fin = final_grade # others"
    and "eff = drop (nat (drops test)) (sort (grades test))"
  shows "(final_policy self = ''Replace Lowest Test'' \<longrightarrow>
            calculate_category_average self ''Test'' =
              mean_or_zero (if eff \<noteq> [] \<and> final_grade > hd eff
                            then final_grade # tl eff else eff))
       \<and> (final_policy self = ''Average with Lowest Test'' \<longrightarrow>
            calculate_category_average self ''Test'' =
              mean_or_zero (if eff \<noteq> [] then (hd eff + final_grade) / 2 # tl eff else eff))
       \<and> (eff \<noteq> [] \<longrightarrow> hd eff = Min (set eff))"
proof -
  have e: "apply_drops (drops test) (map py_float (sort (grades test))) = eff"
    by (simp add: assms(4) apply_drops_eq map_py_float)
  have "sorted eff" by (simp add: assms(4) sorted_wrt_drop)
  then have m: "eff \<noteq> [] \<longrightarrow> hd eff = Min (set eff)" by (simp add: hd_sorted_Min)
  have avg: "calculate_category_average self ''Test''
               = mean_or_zero (final_substitution self ''Test'' eff)"
  proof (cases "grades test = []")
    case True
    then have "eff = []" by (simp add: assms(4))
    then have "final_substitution self ''Test'' eff = []"
      by (simp add: final_substitution_def split: option.splits list.splits)
    then show ?thesis
      using assms(1) True by (simp add: calculate_category_average_def mean_or_zero_def)
  next
    case False
    then show ?thesis
      using assms(1) e by (simp add: calculate_category_average_def)
  qed
  have r: "final_policy self = ''Replace Lowest Test'' \<Longrightarrow>
           final_substitution self ''Test'' eff
             = (if eff \<noteq> [] \<and> final_grade > hd eff then final_grade # tl eff else eff)"
    using assms(2,3) by (simp add: final_substitution_def py_float_def update_first)
  have a: "final_policy self = ''Average with Lowest Test'' \<Longrightarrow>
           final_substitution self ''Test'' eff
             = (if eff \<noteq> [] then (hd eff + final_grade) / 2 # tl eff else eff)"
    using assms(2,3) by (simp add: final_substitution_def py_float_def update_first)
  show ?thesis using avg r a m by simp
qed

theorem category_average_with_final_witness:
  "calculate_category_average (test_final_course ''Replace Lowest Test'') ''Test'' = 85
   \<and> calculate_category_average (test_final_course ''Average with Lowest Test'') ''Test''
       = 165 / 2"
proof -
  have t: "map_of (categories (test_final_course p)) ''Test'' = Some test_cat"
    and f: "map_of (categories (test_final_course p)) ''Final'' = Some final_cat" for p
    by (simp_all add: test_final_course_def)
  have g: "grades final_cat = 80 # []" by (simp add: final_cat_def)
  have e: "[70, 90] = drop (nat (drops test_cat)) (sort (grades test_cat))"
    by (simp add: test_cat_def)
  from category_average_with_final[OF t f g e, of "''Replace Lowest Test''"]
       category_average_with_final[OF t f g e, of "''Average with Lowest Test''"]
  show ?thesis by (simp add: test_final_course_def mean_or_zero_def)
qed

section \<open>Current grade\<close>

lemma current_grade_loop_sums:
  "current_grade_loop self cs (a, b) =
     (a + (\<Sum>(nm, cat) \<leftarrow> recorded cs. calculate_category_average self nm * (weight cat / 100)),
      b + (\<Sum>(nm, cat) \<leftarrow> recorded cs. weight cat / 100))"
  by (induction cs arbitrary: a b) (auto simp: recorded_def py_float_def Let_def)

lemma recorded_none: "\<forall>(nm, cat) \<in> set cs. grades cat = [] \<Longrightarrow> recorded cs = []"
  by (induction cs) (auto simp: recorded_def)

text \<open>
  Claim C5.  \<open>calculate_current_grade\<close> is the sum, over the categories with at least
  one recorded grade, of average times weight/100, divided by the sum of weight/100
  over the same categories when that sum is positive, and 0 otherwise; categories
  without grades enter neither sum, so the result is 0 when no category has a grade.
\<close>

theorem current_grade_formula:
  "calculate_current_grade self =
     (if (\<Sum>(nm, cat) \<leftarrow> recorded (categories self). weight cat / 100) > 0
      then (\<Sum>(nm, cat) \<leftarrow> recorded (categories self).
              calculate_category_average self nm * (weight cat / 100))
           / (\<Sum>(nm, cat) \<leftarrow> recorded (categories self). weight cat / 100)
      else 0)
   \<and> ((\<forall>(nm, cat) \<in> set (categories self). grades cat = [])
        \<longrightarrow> calculate_current_grade self = 0)"
  by (auto simp: calculate_current_grade_def current_grade_loop_sums recorded_none)

theorem current_grade_formula_witness:
  "calculate_current_grade homework_quiz_course = 87
   \<and> calculate_current_grade no_grades_course = 0"
proof -
  have a: "calculate_category_average homework_quiz_course ''Homework'' = 90"
    and b: "calculate_category_average homework_quiz_course ''Quiz'' = 85"
    by (simp_all add: calculate_category_average_def homework_quiz_course_def homework_def
          quiz_def final_substitution_def apply_drops_def mean_or_zero_def py_float_def)
  have n: "\<forall>(nm, cat) \<in> set (categories no_grades_course). grades cat = []"
    by (simp add: no_grades_course_def)
  have r: "recorded (categories homework_quiz_course) = [(''Homework'', homework), (''Quiz'', quiz)]"
    by (simp add: recorded_def homework_quiz_course_def homework_def quiz_def)
  from current_grade_formula[of homework_quiz_course] current_grade_formula[of no_grades_course] n
  show ?thesis by (simp add: r a b homework_def quiz_def)
qed

section \<open>GPA points\<close>

lemma gpa_scan_range: "gpa_scan p l = 0 \<or> (\<exists>m. (gpa_scan p l, m) \<in> set l)"
proof (induction l)
  case Nil
  then show ?case by simp
next
  case (Cons a l)
  obtain g m where a: "a = (g, m)" by (cases a)
  show ?case
  proof (cases "p \<ge> m")
    case True
    then have "(gpa_scan p (a # l), m) \<in> set (a # l)" by (simp add: a py_float_def)
    then show ?thesis by blast
  next
    case False
    then have "gpa_scan p (a # l) = gpa_scan p l" by (simp add: a)
    then show ?thesis using Cons.IH by auto
  qed
qed

lemma gpa_scan_mono:
  assumes "sorted_wrt (\<lambda>a b. fst a \<ge> fst b) l" and "\<forall>(g, m) \<in> set l. 0 \<le> g" and "p1 \<le> p2"
  shows "gpa_scan p1 l \<le> gpa_scan p2 l"
  using assms
proof (induction l)
  case Nil
  then show ?case by simp
next
  case (Cons a l)
  obtain g m where a: "a = (g, m)" by (cases a)
  have ih: "gpa_scan p1 l \<le> gpa_scan p2 l" using Cons by simp
  have le: "gpa_scan p1 l \<le> g"
    using gpa_scan_range[of p1 l] Cons.prems(1,2) a by auto
  show ?case using ih le Cons.prems(3) a by (auto simp: py_float_def)
qed

lemma sorted_reverse_fst: "sorted_wrt (\<lambda>a b. fst a \<ge> fst b) (sorted_reverse ps)"
proof -
  have "sorted_wrt (\<lambda>a b. b \<le> a) (rev (sort ps))"
    by (simp add: sorted_wrt_rev)
  then show ?thesis
    unfolding sorted_reverse_def
    by (rule sorted_wrt_mono_rel[rotated]) (auto simp: less_eq_prod_def)
qed

lemma gpa_scan_find:
  "gpa_scan p l = (case find (\<lambda>(g, m). m \<le> p) l of None \<Rightarrow> 0 | Some (g, m) \<Rightarrow> g)"
  by (induction l) (auto simp: py_float_def)

lemma map_float_pairs: "map (\<lambda>(k, v). (py_float k, py_float v)) bs = bs"
  by (induction bs) (auto simp: py_float_def)

text \<open>
  Claim C6, as stated, at a boundary set that passes the descending check: with the
  single boundary \<open>-1 \<mapsto> 50\<close> the percentage 40 gives 0 and the higher percentage 60
  gives \<open>-1\<close>.
\<close>

theorem gpa_points_negative_counterexample:
  "boundaries_descending (grade_boundaries negative_gpa_course)
   \<and> (40 :: real) \<le> 60
   \<and> get_gpa_points negative_gpa_course 40 = 0
   \<and> get_gpa_points negative_gpa_course 60 = - 1
   \<and> \<not> get_gpa_points negative_gpa_course 40 \<le> get_gpa_points negative_gpa_course 60"
  by (simp add: negative_gpa_course_def boundaries_descending_def get_gpa_points_def
        sorted_reverse_def py_float_def)

text \<open>
  Claim C6, amended.  For every boundary set whose GPA points are all non-negative
  (descending thresholds or not), \<open>get_gpa_points\<close> is monotone in the percentage.
  The lookup walks the pairs in descending GPA order and returns the first GPA whose
  minimum is at most the percentage, and 0 if the set is empty or nothing matches.
\<close>

theorem gpa_points_monotone:
  assumes "\<forall>(g, m) \<in> set (grade_boundaries self). 0 \<le> g" and "p1 \<le> p2"
  shows "get_gpa_points self p1 \<le> get_gpa_points self p2
       \<and> get_gpa_points self p1 =
           (case find (\<lambda>(g, m). m \<le> p1) (sorted_reverse (grade_boundaries self)) of
              None \<Rightarrow> 0 | Some (g, m) \<Rightarrow> g)
       \<and> sorted_wrt (\<lambda>a b. fst a \<ge> fst b) (sorted_reverse (grade_boundaries self))"
proof -
  let ?l = "sorted_reverse (grade_boundaries self)"
  have s: "set ?l = set (grade_boundaries self)"
    by (simp add: sorted_reverse_def)
  have g: "get_gpa_points self p = gpa_scan p ?l" for p
    by (simp add: get_gpa_points_def map_float_pairs py_float_def sorted_reverse_def)
  have "gpa_scan p1 ?l \<le> gpa_scan p2 ?l"
    using assms s by (intro gpa_scan_mono sorted_reverse_fst) auto
  then show ?thesis
    by (simp add: g gpa_scan_find sorted_reverse_fst)
qed

theorem gpa_points_monotone_witness:
  "get_gpa_points homework_quiz_course 75 = 2
   \<and> get_gpa_points homework_quiz_course 85 = 3
   \<and> get_gpa_points homework_quiz_course 75 \<le> get_gpa_points homework_quiz_course 85"
proof -
  have h: "\<forall>(g, m) \<in> set (grade_boundaries homework_quiz_course). 0 \<le> g"
    by (simp add: homework_quiz_course_def)
  have p: "(75 :: real) \<le> 85" by simp
  have a: "get_gpa_points homework_quiz_course 75 = 2"
    and b: "get_gpa_points homework_quiz_course 85 = 3"
    by (simp_all add: homework_quiz_course_def get_gpa_points_def sorted_reverse_def
          py_float_def less_eq_prod_def)
  from gpa_points_monotone[OF h p] a b show ?thesis by simp
qed

section \<open>Serialisation round trip\<close>

lemma dict_set_fresh: "k \<notin> fst ` set d \<Longrightarrow> dict_set k v d = d @ [(k, v)]"
  by (induction d) auto

lemma foldl_dict_set_distinct:
  "distinct (map fst (acc @ its)) \<Longrightarrow> foldl (\<lambda>d (k, v). dict_set k v d) acc its = acc @ its"
proof (induction its arbitrary: acc)
  case Nil
  then show ?case by simp
next
  case (Cons a its)
  obtain k v where a: "a = (k, v)" by (cases a)
  have "k \<notin> fst ` set acc" using Cons.prems a by auto
  then have "dict_set k v acc = acc @ [(k, v)]" by (rule dict_set_fresh)
  moreover have "distinct (map fst ((acc @ [(k, v)]) @ its))" using Cons.prems a by simp
  ultimately show ?case using Cons.IH[of "acc @ [(k, v)]"] a by simp
qed

lemma dict_of_items_distinct: "distinct (map fst its) \<Longrightarrow> dict_of_items its = its"
  using foldl_dict_set_distinct[of "[]" its] by (simp add: dict_of_items_def)

lemma category_roundtrip: "category_from_dict (category_to_dict cat) = cat"
  by (simp add: category_from_dict_def category_to_dict_def py_float_id py_int_def)

lemma from_dict_loop:
  "distinct (map fst (categories c @ its)) \<Longrightarrow>
   foldl (\<lambda>c (nm, cat_data).
            c\<lparr> categories := dict_set nm (category_from_dict cat_data) (categories c) \<rparr>) c
     (map (\<lambda>(nm, cat). (nm, category_to_dict cat)) its)
   = c\<lparr> categories := categories c @ its \<rparr>"
proof (induction its arbitrary: c)
  case Nil
  then show ?case by simp
next
  case (Cons a its)
  obtain k v where a: "a = (k, v)" by (cases a)
  have "k \<notin> fst ` set (categories c)" using Cons.prems a by auto
  then have d: "dict_set k (category_from_dict (category_to_dict v)) (categories c)
                  = categories c @ [(k, v)]"
    by (simp add: dict_set_fresh category_roundtrip)
  show ?case
    using Cons.IH[of "c\<lparr>categories := categories c @ [(k, v)]\<rparr>"] Cons.prems a d by simp
qed

lemma keys_to_dict:
  "map fst (map (\<lambda>(nm, cat). (nm, category_to_dict cat)) cs) = map fst cs"
  by (induction cs) auto

text \<open>
  Claim C9.  For every course (its dicts having pairwise different keys, as every
  Python dict has), \<open>Course.from_dict(course.to_dict())\<close> is the course itself: name,
  credit hours, semester, the categories in order with weight, capacity, drops and
  the grade sequence of each, the grade boundaries and the final policy.
\<close>

theorem course_roundtrip:
  assumes "distinct (map fst (categories self))"
    and "distinct (map fst (grade_boundaries self))"
  shows "from_dict (to_dict self) = self"
proof -
  have c: "cd_categories (to_dict self)
             = map (\<lambda>(nm, cat). (nm, category_to_dict cat)) (categories self)"
    using assms(1)
    by (simp only: to_dict_def course_dict.simps)
       (rule dict_of_items_distinct, simp only: keys_to_dict)
  have g: "cd_grade_boundaries (to_dict self) = grade_boundaries self"
    using assms(2) by (simp add: to_dict_def map_float_pairs dict_of_items_distinct)
  show ?thesis
    using assms
    by (simp add: from_dict_def c g map_float_pairs dict_of_items_distinct from_dict_loop
          course_init_def Let_def)
       (simp add: to_dict_def py_float_def)
qed

theorem course_roundtrip_witness:
  "from_dict (to_dict homework_quiz_course) = homework_quiz_course
   \<and> cd_categories (to_dict homework_quiz_course)
       = [(''Homework'', \<lparr> d_name = ''Homework'', d_weight = 40, d_total_assignments = 4,
                            d_drops = 1, d_grades = [60, 100, 80, 90] \<rparr>),
          (''Quiz'', \<lparr> d_name = ''Quiz'', d_weight = 60, d_total_assignments = 2,
                        d_drops = 0, d_grades = [85] \<rparr>)]"
proof -
  have a: "distinct (map fst (categories homework_quiz_course))"
    and b: "distinct (map fst (grade_boundaries homework_quiz_course))"
    by (simp_all add: homework_quiz_course_def)
  from course_roundtrip[OF a b] show ?thesis
    by (simp add: to_dict_def homework_quiz_course_def dict_of_items_def category_to_dict_def
          homework_def quiz_def py_float_def py_int_def)
qed

section \<open>Required grades: completed contribution\<close>

lemma process_drops_Nil: "process_drops cat = [] \<longleftrightarrow> grades cat = []"
  by (auto simp: process_drops_def Let_def sort_eq_Nil)

lemma process_drops_agree:
  "int (length (grades cat)) > drops cat \<Longrightarrow>
   process_drops cat = apply_drops (drops cat) (sort (grades cat))"
  by (auto simp: process_drops_def apply_drops_def Let_def)

lemma contribution_loop_sums:
  "\<forall>(nm, cat) \<in> set cs. grades cat \<noteq> [] \<longrightarrow> effective_total cat \<noteq> 0 \<Longrightarrow>
   contribution_loop cs (a, b) =
     Inr (a + (\<Sum>(nm, cat) \<leftarrow> recorded cs.
                 mean_or_zero (process_drops cat) * completed_weight cat),
          b + (\<Sum>(nm, cat) \<leftarrow> recorded cs. completed_weight cat))"
proof (induction cs arbitrary: a b)
  case Nil
  then show ?case by (simp add: recorded_def)
next
  case (Cons x cs)
  obtain nm cat where x: "x = (nm, cat)" by (cases x)
  have ih: "contribution_loop cs (a', b') =
     Inr (a' + (\<Sum>(nm, cat) \<leftarrow> recorded cs.
                  mean_or_zero (process_drops cat) * completed_weight cat),
          b' + (\<Sum>(nm, cat) \<leftarrow> recorded cs. completed_weight cat))" for a' b'
    using Cons by simp
  show ?case
  proof (cases "grades cat = []")
    case True
    then show ?thesis by (simp add: x ih recorded_def process_drops_Nil)
  next
    case False
    then have "effective_total cat \<noteq> 0" using Cons.prems x by simp
    then show ?thesis using False
      by (simp add: x ih recorded_def process_drops_Nil mean_or_zero_def completed_weight_def
            solver_weight_def Let_def)
  qed
qed

lemma current_contribution_sum:
  assumes "\<forall>(nm, cat) \<in> set cs. grades cat \<noteq> [] \<longrightarrow> effective_total cat \<noteq> 0"
  shows "current_contribution cs =
           Inr (\<Sum>(nm, cat) \<leftarrow> recorded cs.
                  mean_or_zero (process_drops cat) * completed_weight cat)"
  using contribution_loop_sums[OF assms, of 0 0] by (simp add: current_contribution_def)

lemma average_is_processed_mean:
  assumes "map_of (categories self) nm = Some cat" and "grades cat \<noteq> []"
    and "int (length (grades cat)) > drops cat" and "final_policy self = ''No Replacement''"
  shows "calculate_category_average self nm = mean_or_zero (process_drops cat)"
  using assms
  by (simp add: calculate_category_average_def final_substitution_def map_py_float
        process_drops_agree split: option.splits)

text \<open>
  Claim C1, as stated, on two courses.  With \<open>Homework\<close> (weight 40, four
  assignments, one drop, grades 60, 100, 80, 90) and \<open>Quiz\<close> (weight 60, two
  assignments, grade 85) the loop ends with contribution 61.5 and weight used 0.7,
  and the contribution stays 61.5, while the current grade of section 4.2 is 87; the
  contribution divided by the weight used is not 87 either.  With the same
  \<open>Homework\<close> and \<open>Quiz\<close> (weight 60, three assignments, one drop, grade 85) the drop
  rules part: the solver keeps the single grade 85, \<open>calculate_category_average\<close>
  drops it and gives 0, and the contribution is 61.5 against a current grade of 36.
\<close>

theorem completed_contribution_counterexample:
  "contribution_loop (categories homework_quiz_course) (0, 0) = Inr (123 / 2, 7 / 10)
   \<and> current_contribution (categories homework_quiz_course) = Inr (123 / 2)
   \<and> calculate_current_grade homework_quiz_course = 87
   \<and> current_contribution (categories homework_quiz_course)
       \<noteq> Inr (calculate_current_grade homework_quiz_course)
   \<and> (123 / 2) / (7 / 10) \<noteq> calculate_current_grade homework_quiz_course
   \<and> process_drops short_quiz = [85]
   \<and> calculate_category_average short_quiz_course ''Quiz'' = 0
   \<and> current_contribution (categories short_quiz_course) = Inr (123 / 2)
   \<and> calculate_current_grade short_quiz_course = 36"
  by (simp add: current_contribution_def calculate_current_grade_def homework_quiz_course_def
        short_quiz_course_def homework_def quiz_def short_quiz_def process_drops_def
        effective_total_def solver_weight_def calculate_category_average_def
        final_substitution_def apply_drops_def mean_or_zero_def py_float_def)

text \<open>
  The example of the specification: \<open>Quiz\<close> alone (weight 100, two assignments, grade
  85) has contribution 42.5 and current grade 85.
\<close>

lemma single_quiz_contribution:
  "current_contribution (categories single_quiz_course) = Inr (85 / 2)
   \<and> calculate_current_grade single_quiz_course = 85"
  by (simp add: current_contribution_def calculate_current_grade_def single_quiz_course_def
        single_quiz_def process_drops_def effective_total_def solver_weight_def
        calculate_category_average_def final_substitution_def apply_drops_def
        mean_or_zero_def py_float_def)

lemma process_drops_kept:
  "grades cat \<noteq> [] \<Longrightarrow>
   process_drops cat =
     (if 0 < drops cat \<and> drops cat < int (length (grades cat))
      then drop (nat (drops cat)) (sort (grades cat))
      else sort (grades cat))"
  by (simp add: process_drops_def Let_def)

text \<open>
  Claim C1, amended.  Step 1 sorts the recorded grades of each category and removes
  the lowest \<open>drops\<close> of them only when \<open>drops\<close> is positive and more than \<open>drops\<close>
  grades are recorded; otherwise it keeps them all.  Where no category with grades
  has effective total 0, \<open>currentContribution\<close> is the sum, over the categories with
  recorded grades, of the mean of the kept grades times
  \<open>weight/100 * (keptCount / effectiveTotal)\<close>; it is not normalised by the weight
  used.  When the policy is \<open>No Replacement\<close> and every such category has more than
  \<open>drops\<close> grades, that mean is the category average of section 4.2, so the
  contribution is the numerator of the current-grade formula with each weight
  scaled by the completed fraction.
\<close>

theorem completed_contribution:
  assumes "distinct (map fst (categories self))"
    and "\<forall>(nm, cat) \<in> set (categories self).
           grades cat \<noteq> [] \<longrightarrow> total_assignments cat - drops cat \<noteq> 0"
  shows "current_contribution (categories self) =
           Inr (\<Sum>(nm, cat) \<leftarrow> recorded (categories self).
                  (let kept = (if 0 < drops cat \<and> drops cat < int (length (grades cat))
                               then drop (nat (drops cat)) (sort (grades cat))
                               else sort (grades cat))
                   in sum_list kept / real (length kept)
                        * (weight cat / 100
                             * (real (length kept)
                                  / real_of_int (total_assignments cat - drops cat)))))
       \<and> (final_policy self = ''No Replacement''
            \<and> (\<forall>(nm, cat) \<in> set (categories self).
                  grades cat \<noteq> [] \<longrightarrow> drops cat < int (length (grades cat)))
          \<longrightarrow> current_contribution (categories self) =
                Inr (\<Sum>(nm, cat) \<leftarrow> recorded (categories self).
                       calculate_category_average self nm
                         * (weight cat / 100
                              * (real (length (drop (nat (drops cat)) (sort (grades cat))))
                                   / real_of_int (total_assignments cat - drops cat)))))"
proof -
  have e: "\<forall>(nm, cat) \<in> set (categories self). grades cat \<noteq> [] \<longrightarrow> effective_total cat \<noteq> 0"
    using assms(2) by (simp add: effective_total_def)
  have g: "current_contribution (categories self) =
           Inr (\<Sum>(nm, cat) \<leftarrow> recorded (categories self).
                  mean_or_zero (process_drops cat) * completed_weight cat)"
    by (rule current_contribution_sum[OF e])
  have k: "(\<Sum>(nm, cat) \<leftarrow> recorded (categories self).
              mean_or_zero (process_drops cat) * completed_weight cat)
         = (\<Sum>(nm, cat) \<leftarrow> recorded (categories self).
              (let kept = (if 0 < drops cat \<and> drops cat < int (length (grades cat))
                           then drop (nat (drops cat)) (sort (grades cat))
                           else sort (grades cat))
               in sum_list kept / real (length kept)
                    * (weight cat / 100
                         * (real (length kept)
                              / real_of_int (total_assignments cat - drops cat)))))"
  proof (rule sum_list_cong_set)
    fix x assume x: "x \<in> set (recorded (categories self))"
    obtain nm cat where xe: "x = (nm, cat)" by (cases x)
    have ne: "grades cat \<noteq> []" using x xe by (auto simp: recorded_def)
    have pn: "process_drops cat \<noteq> []" using ne by (simp add: process_drops_Nil)
    have "mean_or_zero (process_drops cat) * completed_weight cat
        = sum_list (process_drops cat) / real (length (process_drops cat))
            * (weight cat / 100
                 * (real (length (process_drops cat))
                      / real_of_int (total_assignments cat - drops cat)))"
      using pn by (simp add: mean_or_zero_def completed_weight_def effective_total_def)
    then show "(case x of (nm, cat) \<Rightarrow> mean_or_zero (process_drops cat) * completed_weight cat)
        = (case x of (nm, cat) \<Rightarrow>
             (let kept = (if 0 < drops cat \<and> drops cat < int (length (grades cat))
                          then drop (nat (drops cat)) (sort (grades cat))
                          else sort (grades cat))
              in sum_list kept / real (length kept)
                   * (weight cat / 100
                        * (real (length kept)
                             / real_of_int (total_assignments cat - drops cat)))))"
      unfolding xe Let_def prod.case process_drops_kept[OF ne] by simp
  qed
  have c: "(\<Sum>(nm, cat) \<leftarrow> recorded (categories self).
              mean_or_zero (process_drops cat) * completed_weight cat)
         = (\<Sum>(nm, cat) \<leftarrow> recorded (categories self).
              calculate_category_average self nm
                * (weight cat / 100
                     * (real (length (drop (nat (drops cat)) (sort (grades cat))))
                          / real_of_int (total_assignments cat - drops cat))))"
    if p: "final_policy self = ''No Replacement''"
      and d: "\<forall>(nm, cat) \<in> set (categories self).
                grades cat \<noteq> [] \<longrightarrow> drops cat < int (length (grades cat))"
  proof (rule sum_list_cong_set)
    fix x assume x: "x \<in> set (recorded (categories self))"
    obtain nm cat where xe: "x = (nm, cat)" by (cases x)
    have m: "(nm, cat) \<in> set (categories self)" and ne: "grades cat \<noteq> []"
      using x xe by (auto simp: recorded_def)
    have dl: "drops cat < int (length (grades cat))" using d m ne by auto
    have "map_of (categories self) nm = Some cat"
      using assms(1) m by simp
    then have a: "calculate_category_average self nm = mean_or_zero (process_drops cat)"
      using ne dl p by (intro average_is_processed_mean) auto
    have "process_drops cat = drop (nat (drops cat)) (sort (grades cat))"
      using dl by (simp add: process_drops_agree apply_drops_eq)
    then have "completed_weight cat
        = weight cat / 100
            * (real (length (drop (nat (drops cat)) (sort (grades cat))))
                 / real_of_int (total_assignments cat - drops cat))"
      by (simp add: completed_weight_def effective_total_def)
    then show "(case x of (nm, cat) \<Rightarrow> mean_or_zero (process_drops cat) * completed_weight cat)
        = (case x of (nm, cat) \<Rightarrow>
             calculate_category_average self nm
               * (weight cat / 100
                    * (real (length (drop (nat (drops cat)) (sort (grades cat))))
                         / real_of_int (total_assignments cat - drops cat))))"
      using a by (simp add: xe)
  qed
  show ?thesis using g k c by simp
qed

theorem completed_contribution_witness:
  "current_contribution (categories short_quiz_course) = Inr (123 / 2)
   \<and> current_contribution (categories homework_quiz_course) = Inr (123 / 2)
   \<and> calculate_category_average homework_quiz_course ''Homework'' = 90
   \<and> calculate_category_average homework_quiz_course ''Quiz'' = 85"
proof -
  have a: "distinct (map fst (categories short_quiz_course))"
    and a': "distinct (map fst (categories homework_quiz_course))"
    by (simp_all add: short_quiz_course_def homework_quiz_course_def)
  have b: "\<forall>(nm, cat) \<in> set (categories short_quiz_course).
             grades cat \<noteq> [] \<longrightarrow> total_assignments cat - drops cat \<noteq> 0"
    and b': "\<forall>(nm, cat) \<in> set (categories homework_quiz_course).
             grades cat \<noteq> [] \<longrightarrow> total_assignments cat - drops cat \<noteq> 0"
    by (simp_all add: short_quiz_course_def homework_quiz_course_def homework_def quiz_def
          short_quiz_def)
  have p: "final_policy homework_quiz_course = ''No Replacement''"
    by (simp add: homework_quiz_course_def)
  have d: "\<forall>(nm, cat) \<in> set (categories homework_quiz_course).
             grades cat \<noteq> [] \<longrightarrow> drops cat < int (length (grades cat))"
    by (simp add: homework_quiz_course_def homework_def quiz_def)
  have r: "recorded (categories short_quiz_course)
             = [(''Homework'', homework), (''Quiz'', short_quiz)]"
    and r': "recorded (categories homework_quiz_course)
             = [(''Homework'', homework), (''Quiz'', quiz)]"
    by (simp_all add: recorded_def short_quiz_course_def homework_quiz_course_def
          homework_def quiz_def short_quiz_def)
  have h: "calculate_category_average homework_quiz_course ''Homework'' = 90"
    and q: "calculate_category_average homework_quiz_course ''Quiz'' = 85"
    by (simp_all add: calculate_category_average_def homework_quiz_course_def homework_def
          quiz_def final_substitution_def apply_drops_def mean_or_zero_def py_float_def)
  from completed_contribution[OF a b]
  have 1: "current_contribution (categories short_quiz_course) = Inr (123 / 2)"
    by (simp add: r Let_def) (simp add: homework_def short_quiz_def)
  from completed_contribution[OF a' b'] p d
  have "current_contribution (categories homework_quiz_course) =
          Inr (\<Sum>(nm, cat) \<leftarrow> recorded (categories homework_quiz_course).
                 calculate_category_average homework_quiz_course nm
                   * (weight cat / 100
                        * (real (length (drop (nat (drops cat)) (sort (grades cat))))
                             / real_of_int (total_assignments cat - drops cat))))"
    by blast
  then have 2: "current_contribution (categories homework_quiz_course) = Inr (123 / 2)"
    by (simp add: r' h q) (simp add: homework_def quiz_def)
  show ?thesis using 1 2 h q by simp
qed

section \<open>Required grades: remaining slots\<close>

lemma category_slots_none:
  "effective_total cat \<le> int (length (process_drops cat)) \<Longrightarrow>
   category_slots cs ap pol nm cat = Inr []"
  by (simp add: category_slots_def)

lemma remaining_loop_none:
  "\<forall>(nm, cat) \<in> set rest. effective_total cat \<le> int (length (process_drops cat)) \<Longrightarrow>
   remaining_loop cs ap pol rest acc = Inr acc"
  by (induction rest arbitrary: acc) (auto simp: category_slots_none)

text \<open>
  None of the three texts the policy combo box can show selects a special branch for
  the \<open>Final\<close> category: the slot always gets the category's own per-slot weight.
\<close>

lemma final_slot_for_combo_text:
  assumes "policy \<in> set final_policy_items"
    and "effective_total cat > int (length (process_drops cat))"
  shows "category_slots cs True policy ''Final'' cat =
           Inr [(''Final'', solver_weight cat / real_of_int (effective_total cat))]"
  using assms by (auto simp: category_slots_def final_policy_items_def Let_def)

text \<open>
  With the texts the source compares against, the weight added for the test is the
  test weight over \<open>total_assignments\<close>, the drops not subtracted.
\<close>

lemma final_slot_for_replace_text:
  assumes "effective_total cat > int (length (process_drops cat))"
    and "map_of cs ''Test'' = Some test" and "total_assignments test \<noteq> 0"
  shows "category_slots cs True ''Replace Lowest Test'' ''Final'' cat =
           Inr [(''Final'', solver_weight cat / real_of_int (effective_total cat)
                            + solver_weight test / real_of_int (total_assignments test))]"
    and "category_slots cs True ''Average with Lowest Test'' ''Final'' cat =
           Inr [(''Final'', solver_weight cat / real_of_int (effective_total cat)),
                (''Test'', solver_weight test / real_of_int (total_assignments test) / 2)]"
  using assms by (auto simp: category_slots_def Let_def)

text \<open>
  Claim C2, at an input the program receives: \<open>Test\<close> (weight 40, four assignments,
  one drop, grades 70 and 80) and \<open>Final\<close> (weight 60, one assignment, no grade), the
  combo box on its second or third entry.  The \<open>Final\<close> slot gets weight 3/5, its own
  per-slot weight, and no half-weight \<open>Test\<close> slot is added; the claim asks for
  3/5 + 2/15 = 11/15 under replacement, and for an extra \<open>Test\<close> slot of weight 1/15
  under averaging.  Even with the texts \<open>Replace Lowest Test\<close> and
  \<open>Average with Lowest Test\<close>, which the combo box never shows, the added test weight
  is 40/100/4 = 1/10 instead of 2/15.
\<close>

theorem final_slot_weight_at_pending_final:
  "final_policy_items ! 1 = ''Replace Lowest Test (Experimental, use at own risk)''
   \<and> remaining_slots (categories pending_final_course) True (final_policy_items ! 1)
       = Inr [(''Test'', 2 / 15), (''Final'', 3 / 5)]
   \<and> remaining_slots (categories pending_final_course) True (final_policy_items ! 2)
       = Inr [(''Test'', 2 / 15), (''Final'', 3 / 5)]
   \<and> required_grades_for_boundary pending_final_course (final_policy_items ! 1) 90
       = Inr (Optimise [(''Test'', 2 / 15), (''Final'', 3 / 5)] (238 / 3))
   \<and> remaining_slots (categories pending_final_course) True ''Replace Lowest Test''
       = Inr [(''Test'', 2 / 15), (''Final'', 7 / 10)]
   \<and> remaining_slots (categories pending_final_course) True ''Average with Lowest Test''
       = Inr [(''Test'', 2 / 15), (''Final'', 3 / 5), (''Test'', 1 / 20)]
   \<and> spec_per_slot_weight pending_final = 3 / 5
   \<and> spec_per_slot_weight dropping_test = 2 / 15
   \<and> spec_per_slot_weight pending_final + spec_per_slot_weight dropping_test = 11 / 15"
  by (simp add: remaining_slots_def category_slots_def final_policy_items_def
        pending_final_course_def pending_final_def dropping_test_def process_drops_def
        effective_total_def solver_weight_def spec_per_slot_weight_def
        required_grades_for_boundary_def find_minimum_balanced_grades_def
        current_contribution_def py_float_def Let_def)

section \<open>Required grades: outcomes\<close>

text \<open>
  Claim C8, as stated, on the single category \<open>Quiz\<close> (four assignments, one drop,
  grades 60, 80, 90): effective total minus recorded count is 3 - 3 = 0, yet the
  solver counts the two grades left after the drop, finds one remaining slot and
  goes on to the optimisation.
\<close>

theorem nothing_left_counterexample:
  "effective_total dropped_quiz - int (length (grades dropped_quiz)) \<le> 0
   \<and> find_minimum_balanced_grades dropped_quiz_course ''No Replacement'' 90 False
       = Inr (Optimise [(''Quiz'', 1 / 3)] (100 / 3))"
  by (simp add: find_minimum_balanced_grades_def remaining_slots_def category_slots_def
        current_contribution_def dropped_quiz_course_def dropped_quiz_def process_drops_def
        effective_total_def solver_weight_def Let_def)

text \<open>
  Claim C8, amended.  For every target percentage, policy text and flag: if every
  category has effective total minus processed count at most 0, the processed count
  being the number of grades left after the solver's drop step, and no category with
  grades has effective total 0, the solver returns the empty result (nothing left to
  solve), neither an error nor scores.
\<close>

theorem nothing_left:
  assumes "\<forall>(nm, cat) \<in> set (categories self).
             (grades cat \<noteq> [] \<longrightarrow> effective_total cat \<noteq> 0)
             \<and> effective_total cat - int (length (process_drops cat)) \<le> 0"
  shows "find_minimum_balanced_grades self policy target_grade apply_final_policy
           = Inr NoRemaining"
proof -
  have "\<forall>(nm, cat) \<in> set (categories self). grades cat \<noteq> [] \<longrightarrow> effective_total cat \<noteq> 0"
    using assms by auto
  then obtain cc where cc: "current_contribution (categories self) = Inr cc"
    using current_contribution_sum by blast
  have "\<forall>(nm, cat) \<in> set (categories self).
          effective_total cat \<le> int (length (process_drops cat))"
    using assms by auto
  then have "remaining_slots (categories self) apply_final_policy policy = Inr []"
    unfolding remaining_slots_def by (rule remaining_loop_none)
  then show ?thesis using cc by (simp add: find_minimum_balanced_grades_def)
qed

theorem nothing_left_witness:
  "find_minimum_balanced_grades complete_course ''No Replacement'' 90 False = Inr NoRemaining"
proof -
  have "\<forall>(nm, cat) \<in> set (categories complete_course).
          (grades cat \<noteq> [] \<longrightarrow> effective_total cat \<noteq> 0)
          \<and> effective_total cat - int (length (process_drops cat)) \<le> 0"
    by (simp add: complete_course_def single_quiz_def effective_total_def process_drops_def)
  from nothing_left[OF this] show ?thesis .
qed

text \<open>
  With a single \<open>Final\<close> slot the solver's outcome, case by case: for a non-zero
  weight the value \<open>(target - contribution) / weight\<close> when it lies in [0, 100] and
  the unreachable error otherwise; for weight 0 the unreachable error when some grade
  is recorded, and a division by zero when none is.
\<close>

lemma final_only_outcome:
  assumes "current_contribution (categories self) = Inr cc"
    and "remaining_slots (categories self) apply_final_policy policy
           = Inr [(''Final'', final_weight)]"
  shows "final_weight \<noteq> 0 \<Longrightarrow>
         find_minimum_balanced_grades self policy target_grade apply_final_policy =
           (if 0 \<le> (target_grade - cc) / final_weight
               \<and> (target_grade - cc) / final_weight \<le> 100
            then Inr (FinalOnly ((target_grade - cc) / final_weight))
            else Inl unreachable_final)"
    and "final_weight = 0 \<Longrightarrow> contribution_is_numpy (categories self) \<Longrightarrow>
         find_minimum_balanced_grades self policy target_grade apply_final_policy
           = Inl unreachable_final"
    and "final_weight = 0 \<Longrightarrow> \<not> contribution_is_numpy (categories self) \<Longrightarrow>
         find_minimum_balanced_grades self policy target_grade apply_final_policy
           = Inl ZeroDivisionError"
  using assms by (simp_all add: find_minimum_balanced_grades_def final_shortcut_def Let_def)

text \<open>
  The example of the specification with the open slot named \<open>Final\<close>: contribution
  42.5, slot weight 0.5, so target 90 needs 95 and target 100 is unreachable.
\<close>

lemma final_only_examples:
  "find_minimum_balanced_grades quiz_final_course ''No Replacement'' 90 False
     = Inr (FinalOnly 95)
   \<and> find_minimum_balanced_grades quiz_final_course ''No Replacement'' 100 False
       = Inl unreachable_final"
proof -
  have c: "current_contribution (categories quiz_final_course) = Inr (85 / 2)"
    by (simp add: current_contribution_def quiz_final_course_def done_quiz_def
          pending_final_def process_drops_def effective_total_def solver_weight_def)
  have s: "remaining_slots (categories quiz_final_course) False ''No Replacement''
             = Inr [(''Final'', 1 / 2)]"
    by (simp add: remaining_slots_def category_slots_def quiz_final_course_def done_quiz_def
          pending_final_def process_drops_def effective_total_def solver_weight_def)
  have w: "(1 / 2 :: real) \<noteq> 0" by simp
  from final_only_outcome(1)[OF c s w, of 90] final_only_outcome(1)[OF c s w, of 100]
  show ?thesis by simp
qed

text \<open>
  Claim C7.  When exactly one slot remains and it belongs to \<open>Final\<close>, the solver is to
  return the single value \<open>(targetPercentage - currentContribution) / finalWeight\<close>
  or, when that lies outside [0, 100], to fail with the unreachable error.  On a
  course whose only category is \<open>Final\<close> with weight 0, one assignment and no grade,
  the single slot is the \<open>Final\<close> slot and the division of line 1090 stops the solver
  with a division by zero, which is neither.  The same zero-weight \<open>Final\<close> next to a
  completed \<open>Quiz\<close> with one recorded grade ends in the unreachable error.
\<close>

theorem final_only_zero_weight_failure:
  "remaining_slots (categories weightless_final_course) False ''No Replacement''
     = Inr [(''Final'', 0)]
   \<and> find_minimum_balanced_grades weightless_final_course ''No Replacement'' 90 False
       = Inl ZeroDivisionError
   \<and> Inl ZeroDivisionError \<noteq> (Inl unreachable_final :: error + solver_result)
   \<and> remaining_slots (categories weightless_final_quiz_course) False ''No Replacement''
       = Inr [(''Final'', 0)]
   \<and> find_minimum_balanced_grades weightless_final_quiz_course ''No Replacement'' 90 False
       = Inl unreachable_final"
  by (simp add: find_minimum_balanced_grades_def remaining_slots_def category_slots_def
        current_contribution_def contribution_is_numpy_def final_shortcut_def
        weightless_final_course_def weightless_final_quiz_course_def pending_final_def
        done_quiz_def process_drops_def effective_total_def solver_weight_def
        unreachable_final_def Let_def)

section \<open>The queries leave the course as it was\<close>

lemma extends_refl: "extends s s" by (simp add: extends_def)

lemma extends_trans:
  assumes "extends s s'" and "extends s' s''"
  shows "extends s s''"
proof -
  have l: "length s \<le> length s'" "length s' \<le> length s''"
    and t: "take (length s) s' = s" "take (length s') s'' = s'"
    using assms by (simp_all add: extends_def)
  have "take (length s) s'' = take (length s) (take (length s') s'')"
    using l by (simp add: min_def)
  then have "take (length s) s'' = s" using t by simp
  then show ?thesis using l by (simp add: extends_def)
qed

lemma extends_nth:
  assumes "extends s s'" and "a < length s"
  shows "s' ! a = s ! a"
proof -
  have "take (length s) s' ! a = s' ! a" using assms(2) by simp
  then show ?thesis using assms(1) by (simp add: extends_def)
qed

lemma extends_append: "extends s (s @ e)" by (simp add: extends_def)

lemma extends_update: "extends s s' \<Longrightarrow> length s \<le> g \<Longrightarrow> extends s (s'[g := x])"
  by (simp add: extends_def)


lemma map_of_mapped:
  "map_of (map (\<lambda>(nm, c). (nm, f c)) cs) nm = map_option f (map_of cs nm)"
  by (induction cs) auto

lemma map_of_course_of:
  "map_of (categories (course_of (self, s))) nm = map_option (category_of s) (map_of (o_categories self) nm)"
  by (simp add: course_of_def map_of_mapped)


lemma valid_refs_lookup:
  "valid_refs (self, s) \<Longrightarrow> map_of (o_categories self) nm = Some c \<Longrightarrow> o_grades c < length s"
  by (auto simp: valid_refs_def list_all_iff dest!: map_of_SomeD)

lemma final_substitution_st_frame:
  assumes "extends s s2" and "length s \<le> g"
  shows "extends s (final_substitution_st self nm g s2)"
proof -
  have a: "extends s (s2 @ e)" for e
    using assms(1) extends_append extends_trans by blast
  then have b: "extends s ((s2 @ e)[g := x])" for e x
    using assms(2) by (simp add: extends_update)
  show ?thesis
    using assms(1) a b
    by (simp add: final_substitution_st_def new_list_def list_setitem_def
          split: option.splits list.splits)
qed

lemma final_substitution_st_value:
  assumes "extends s s2" and "g < length s2" and "valid_refs (self, s)"
  shows "final_substitution_st self nm g s2 ! g = final_substitution (course_of (self, s)) nm (s2 ! g)"
proof (cases "map_of (o_categories self) ''Final''")
  case None
  then show ?thesis
    by (simp add: final_substitution_st_def final_substitution_def map_of_course_of)
next
  case (Some fin)
  have "o_grades fin < length s" using assms(3) Some by (rule valid_refs_lookup)
  then have r: "s2 ! o_grades fin = s ! o_grades fin" using assms(1) by (simp add: extends_nth)
  have p: "final_policy (course_of (self, s)) = o_final_policy self"
    by (simp add: course_of_def)
  show ?thesis
    using Some assms(2) r p
    by (simp add: final_substitution_st_def final_substitution_def map_of_course_of
          new_list_def list_setitem_def category_of_def map_py_float nth_append
          split: list.splits)
qed

lemma calculate_category_average_st_frame:
  "extends s (snd (snd (calculate_category_average_st (self, s) nm)))
   \<and> fst (snd (calculate_category_average_st (self, s) nm)) = self"
proof -
  have e: "extends s (final_substitution_st self nm g (s @ e))" if "length s \<le> g" for g e
    using that extends_append by (rule final_substitution_st_frame[rotated])
  have e1: "extends s (final_substitution_st self nm (Suc (length s)) (s @ [x, y]))" for x y
    by (rule e) simp
  have e2: "extends s (final_substitution_st self nm (Suc (Suc (length s))) (s @ [x, y, z]))" for x y z
    by (rule e) simp
  show ?thesis
    using e1 e2
    by (simp add: calculate_category_average_st_def new_list_def extends_refl Let_def
          split: option.splits)
qed

lemma calculate_category_average_st_value:
  assumes "valid_refs (self, s)"
  shows "fst (calculate_category_average_st (self, s) nm) = calculate_category_average (course_of (self, s)) nm"
proof (cases "map_of (o_categories self) nm")
  case None
  then show ?thesis
    by (simp add: calculate_category_average_st_def calculate_category_average_def map_of_course_of)
next
  case (Some c)
  have v1: "final_substitution_st self nm (Suc (length s)) (s @ [x, y]) ! Suc (length s)
            = final_substitution (course_of (self, s)) nm y" for x y
    using final_substitution_st_value[OF extends_append _ assms, of "Suc (length s)" "[x, y]" nm]
    by (simp add: nth_append)
  have v2: "final_substitution_st self nm (Suc (Suc (length s))) (s @ [x, y, z]) ! Suc (Suc (length s))
            = final_substitution (course_of (self, s)) nm z" for x y z
    using final_substitution_st_value[OF extends_append _ assms, of "Suc (Suc (length s))" "[x, y, z]" nm]
    by (simp add: nth_append)
  show ?thesis
    using Some v1 v2
    by (simp add: calculate_category_average_st_def calculate_category_average_def map_of_course_of
          new_list_def category_of_def apply_drops_def map_py_float nth_append Let_def)
qed


lemma valid_refs_extends:
  assumes "valid_refs (self, s0)" and "extends s0 s"
  shows "valid_refs (self, s)" and "course_of (self, s) = course_of (self, s0)"
proof -
  have l: "length s0 \<le> length s" using assms(2) by (simp add: extends_def)
  show "valid_refs (self, s)"
    using assms(1) l by (auto simp: valid_refs_def list_all_iff)
  have "category_of s c = category_of s0 c" if "(nm, c) \<in> set (o_categories self)" for nm c
  proof -
    have "o_grades c < length s0"
      using assms(1) that by (auto simp: valid_refs_def list_all_iff)
    then show ?thesis using assms(2) by (simp add: category_of_def extends_nth)
  qed
  then have "map (\<lambda>(nm, c). (nm, category_of s c)) (o_categories self)
           = map (\<lambda>(nm, c). (nm, category_of s0 c)) (o_categories self)"
    by auto
  then show "course_of (self, s) = course_of (self, s0)"
    by (simp add: course_of_def)
qed

lemma current_grade_loop_st_ok:
  assumes "valid_refs (self, s0)" and "extends s0 s" and "set cs \<subseteq> set (o_categories self)"
  shows "fst (current_grade_loop_st cs acc (self, s))
           = current_grade_loop (course_of (self, s0)) (map (\<lambda>(nm, c). (nm, category_of s0 c)) cs) acc
       \<and> fst (snd (current_grade_loop_st cs acc (self, s))) = self
       \<and> extends s0 (snd (snd (current_grade_loop_st cs acc (self, s))))"
  using assms(2,3)
proof (induction cs arbitrary: acc s)
  case Nil
  then show ?case by simp
next
  case (Cons x cs)
  obtain nm c where x: "x = (nm, c)" by (cases x)
  obtain a b where acc: "acc = (a, b)" by (cases acc)
  have m: "(nm, c) \<in> set (o_categories self)" using Cons.prems(2) x by simp
  then have "o_grades c < length s0"
    using assms(1) by (auto simp: valid_refs_def list_all_iff)
  then have r: "s ! o_grades c = s0 ! o_grades c"
    using Cons.prems(1) by (simp add: extends_nth)
  have sub: "set cs \<subseteq> set (o_categories self)" using Cons.prems(2) by simp
  show ?case
  proof (cases "s0 ! o_grades c = []")
    case True
    then show ?thesis
      using Cons.IH[OF Cons.prems(1) sub] r by (simp add: x acc category_of_def)
  next
    case False
    obtain avg st' where call: "calculate_category_average_st (self, s) nm = (avg, st')"
      by (cases "calculate_category_average_st (self, s) nm")
    obtain self' s' where st': "st' = (self', s')" by (cases st')
    have f: "extends s s'" "self' = self"
      using calculate_category_average_st_frame[of s self nm] call st' by simp_all
    have v: "valid_refs (self, s)" "course_of (self, s) = course_of (self, s0)"
      using valid_refs_extends[OF assms(1) Cons.prems(1)] by simp_all
    have avg: "avg = calculate_category_average (course_of (self, s0)) nm"
      using calculate_category_average_st_value[OF v(1), of nm] call v(2) by simp
    have e: "extends s0 s'" using Cons.prems(1) f(1) by (rule extends_trans)
    show ?thesis
      using Cons.IH[OF e sub] False r call st' f(2) avg
      by (simp add: x acc category_of_def Let_def)
  qed
qed

text \<open>
  Claim C10.  From a state whose grade references are valid, each of the three
  queries leaves the course object and every list that existed before the call as
  they were (a call only builds new lists: the sorted copy, the slice, the copy of
  the final grades), so the categories, every grades list with its order, the grade
  boundaries and the final policy are unchanged; the values returned are those of
  the functions above, and \<open>calculate_category_average\<close> returns 0 for a name that is
  not a category of the course.
\<close>

theorem queries_do_not_mutate:
  assumes "valid_refs st"
  shows "unchanged st (snd (calculate_category_average_st st nm))
       \<and> unchanged st (snd (calculate_current_grade_st st))
       \<and> unchanged st (snd (get_gpa_points_st st p))
       \<and> course_of (snd (calculate_category_average_st st nm)) = course_of st
       \<and> course_of (snd (calculate_current_grade_st st)) = course_of st
       \<and> fst (calculate_category_average_st st nm) = calculate_category_average (course_of st) nm
       \<and> fst (calculate_current_grade_st st) = calculate_current_grade (course_of st)
       \<and> fst (get_gpa_points_st st p) = get_gpa_points (course_of st) p
       \<and> (map_of (o_categories (fst st)) nm = None \<longrightarrow> fst (calculate_category_average_st st nm) = 0)"
proof -
  obtain self s where st: "st = (self, s)" by (cases st)
  have v: "valid_refs (self, s)" using assms st by simp
  obtain a1 s1 where r1: "calculate_category_average_st (self, s) nm = (a1, (self, s1))" and e1: "extends s s1"
    using calculate_category_average_st_frame[of s self nm]
    by (cases "calculate_category_average_st (self, s) nm") auto
  have l: "fst (current_grade_loop_st (o_categories self) (0, 0) (self, s))
           = current_grade_loop (course_of (self, s)) (categories (course_of (self, s))) (0, 0)
       \<and> fst (snd (current_grade_loop_st (o_categories self) (0, 0) (self, s))) = self
       \<and> extends s (snd (snd (current_grade_loop_st (o_categories self) (0, 0) (self, s))))"
    using current_grade_loop_st_ok[OF v extends_refl, of "o_categories self" "(0, 0)"]
    by (simp add: course_of_def)
  obtain t u where v2: "current_grade_loop (course_of (self, s)) (categories (course_of (self, s))) (0, 0) = (t, u)"
    by (cases "current_grade_loop (course_of (self, s)) (categories (course_of (self, s))) (0, 0)")
  obtain s2 where r2: "current_grade_loop_st (o_categories self) (0, 0) (self, s) = ((t, u), (self, s2))"
    and e2: "extends s s2"
    using l v2 by (cases "current_grade_loop_st (o_categories self) (0, 0) (self, s)") auto
  have c1: "unchanged st (snd (calculate_category_average_st st nm))"
    using r1 e1 by (simp add: st unchanged_def extends_def)
  have c2: "unchanged st (snd (calculate_current_grade_st st))"
    using r2 e2 by (simp add: st unchanged_def extends_def calculate_current_grade_st_def)
  have c3: "unchanged st (snd (get_gpa_points_st st p))"
    by (simp add: unchanged_def get_gpa_points_st_def)
  have c4: "course_of (snd (calculate_category_average_st st nm)) = course_of st"
    using r1 valid_refs_extends(2)[OF v e1] by (simp add: st)
  have c5: "course_of (snd (calculate_current_grade_st st)) = course_of st"
    using r2 valid_refs_extends(2)[OF v e2] by (simp add: st calculate_current_grade_st_def)
  have c6: "fst (calculate_category_average_st st nm) = calculate_category_average (course_of st) nm"
    using calculate_category_average_st_value[OF v] by (simp add: st)
  have c7: "fst (calculate_current_grade_st st) = calculate_current_grade (course_of st)"
    using r2 v2 by (simp add: st calculate_current_grade_st_def calculate_current_grade_def)
  have c8: "fst (get_gpa_points_st st p) = get_gpa_points (course_of st) p"
    by (simp add: get_gpa_points_st_def get_gpa_points_def course_of_def)
  have c9: "map_of (o_categories (fst st)) nm = None \<longrightarrow> fst (calculate_category_average_st st nm) = 0"
    by (simp add: st calculate_category_average_st_def)
  show ?thesis using c1 c2 c3 c4 c5 c6 c7 c8 c9 by blast
qed

theorem queries_do_not_mutate_witness:
  "calculate_category_average_st test_final_state ''Test''
     = (85, fst test_final_state, [[90, 70], [80], [70, 90], [80, 90], [80]])
   \<and> unchanged test_final_state (snd (calculate_category_average_st test_final_state ''Test''))
   \<and> unchanged test_final_state (snd (calculate_current_grade_st test_final_state))
   \<and> fst (calculate_category_average_st test_final_state ''Essay'') = 0"
proof -
  have v: "valid_refs test_final_state"
    by (simp add: valid_refs_def test_final_state_def)
  have c: "calculate_category_average_st test_final_state ''Test''
             = (85, fst test_final_state, [[90, 70], [80], [70, 90], [80, 90], [80]])"
    by (simp add: calculate_category_average_st_def final_substitution_st_def new_list_def
          list_setitem_def test_final_state_def mean_or_zero_def py_float_def nth_append)
  have n: "map_of (o_categories (fst test_final_state)) ''Essay'' = None"
    by (simp add: test_final_state_def)
  from queries_do_not_mutate[OF v, of "''Test''" 0] queries_do_not_mutate[OF v, of "''Essay''" 0] n c
  show ?thesis by simp
qed

end
